theory Spec2Isabelle
  imports Main
begin

section \<open>Values and exceptions of the driver \<open>main_lrn_crv.py\<close>\<close>

text \<open>
  The exceptions \<open>run\<close> can end with. \<open>Raised who\<close> is any exception raised inside the
  collaborator \<open>who\<close> (pandas, scikit-learn, os, the logger, the learning-curve engine),
  whose code is outside the driver; the other constructors are raised by the driver's
  own statements.
\<close>

datatype error =
    TypeError
  | ValueError
  | KeyError string
  | IndexError
  | NameError string
  | UnboundLocalError string
  | AttributeError string
  | Raised string

text \<open>
  \<open>args\<close> is the dict \<open>vars(parse_args(...))\<close>: every destination of the parser is a key,
  with the type argparse gives it. \<open>dirpath\<close> and \<open>clr_mode\<close> default to \<open>None\<close>, and
  \<open>run\<close> tests \<open>scaler\<close> against \<open>None\<close>, so these three are options. \<open>cv_folds\<close> is only
  ever formatted into text, and is kept as that text. Floats are passed through
  untouched and stay abstract (\<open>'f\<close>).
\<close>

record 'f args =
  dirpath :: "string option"
  target_name :: string
  cell_features :: "string list"
  drug_features :: "string list"
  other_features :: "string list"
  cv_method :: string
  cv_folds :: string
  model_name :: string
  epochs :: int
  batch_size :: int
  dr_rate :: 'f
  scaler :: "string option"
  opt :: string
  clr_mode :: "string option"
  clr_base_lr :: 'f
  clr_max_lr :: 'f
  clr_gamma :: 'f
  n_shards :: int
  n_jobs :: int

text \<open>A pandas DataFrame: its named columns in order, each with its cells.\<close>

type_synonym 'v dataframe = "(string \<times> 'v list) list"

definition columns :: "'v dataframe \<Rightarrow> string list" where
  "columns df = map fst df"

text \<open>A pathlib path: \<open>Path(s)\<close>, and \<open>p / s\<close>.\<close>

datatype path = Path string | Div path string

datatype scaler_obj = StandardScaler | MinMaxScaler | RobustScaler

text \<open>The value of the local \<open>scaler\<close> after the selection at lines 239-246.\<close>

datatype scaler_val = ScNone | ScStr string | ScObj scaler_obj

text \<open>Values stored in the keyword dicts handed to the engine.\<close>

datatype 'f kwval = VNone | VBool bool | VInt int | VFloat 'f | VStr string | VLogger

type_synonym 'f kwargs = "(string \<times> 'f kwval) list"

record datetime =
  year :: nat
  month :: nat
  day :: nat
  hour :: nat
  minute :: nat

text \<open>The keyword arguments of \<open>LearningCurve(...)\<close> and of \<open>lc.trn_learning_curve(...)\<close>.\<close>

record ('f, 'v) lc_call =
  lc_X :: "'v dataframe"
  lc_Y :: "'v dataframe"
  lc_cv_lists :: "'v dataframe \<times> 'v dataframe"
  lc_n_shards :: int
  lc_shard_step_scale :: string
  lc_args :: "'f args"
  lc_outdir :: path

record 'f trn_call =
  trn_framework :: string
  trn_mltype :: string
  trn_model_name :: string
  trn_init_kwargs :: "'f kwargs"
  trn_fit_kwargs :: "'f kwargs"
  trn_clr_keras_kwargs :: "'f kwargs"
  trn_n_jobs :: int
  trn_random_state :: int

text \<open>
  What \<open>run\<close> does to the world, in order: every call into a collaborator is one event,
  recorded when the call is made (whether or not it then raises).
\<close>

datatype ('f, 'v) event =
    IsFile path
  | ReadParquet path
  | ReadCsv path
  | FitTransform scaler_obj "'v dataframe"
  | MakeDirs path
  | LoggerOpen path
  | LogInfo
  | DumpDict path
  | LCInit "('f, 'v) lc_call"
  | TrnLearningCurve "'f trn_call"
  | KillLogger
  | Print string

text \<open>
  The collaborators. Each is a function of its arguments; what it returns, and whether it
  raises (\<open>Inl\<close> or \<open>Some\<close> of the exception's name), is left open. \<open>OUTDIR\<close> is the
  module constant derived from \<open>__file__\<close>.
\<close>

record ('f, 'v) world =
  OUTDIR :: path
  is_file :: "path \<Rightarrow> bool"
  read_parquet :: "path \<Rightarrow> string + 'v dataframe"
  read_csv :: "path \<Rightarrow> string + 'v dataframe"
  fit_transform :: "scaler_obj \<Rightarrow> 'v dataframe \<Rightarrow> string + 'v list list"
  float32 :: "'v \<Rightarrow> 'v"
  now :: datetime
  makedirs :: "path \<Rightarrow> string option"
  Logger :: "path \<Rightarrow> string option"
  dump_dict :: "'f args \<Rightarrow> path \<Rightarrow> string option"
  LearningCurve :: "('f, 'v) lc_call \<Rightarrow> string option"
  trn_learning_curve :: "('f, 'v) lc_call \<Rightarrow> 'f trn_call \<Rightarrow> string option"

section \<open>Sequencing: a trace of events and a result or an exception\<close>

type_synonym ('f, 'v, 'a) res = "('f, 'v) event list \<times> (error + 'a)"

definition ret :: "'a \<Rightarrow> ('f, 'v, 'a) res" where
  "ret x = ([], Inr x)"

definition raise :: "error \<Rightarrow> ('f, 'v, 'a) res" where
  "raise e = ([], Inl e)"

definition lift :: "error + 'a \<Rightarrow> ('f, 'v, 'a) res" where
  "lift r = ([], r)"

text \<open>A call into a collaborator: the event, then what the collaborator returns or raises.\<close>

definition call :: "('f, 'v) event \<Rightarrow> string + 'a \<Rightarrow> ('f, 'v, 'a) res" where
  "call ev outcome = ([ev], case outcome of Inl who \<Rightarrow> Inl (Raised who) | Inr x \<Rightarrow> Inr x)"

definition call_unit :: "('f, 'v) event \<Rightarrow> string option \<Rightarrow> ('f, 'v, unit) res" where
  "call_unit ev outcome = ([ev], case outcome of None \<Rightarrow> Inr () | Some who \<Rightarrow> Inl (Raised who))"

definition bnd :: "('f, 'v, 'a) res \<Rightarrow> ('a \<Rightarrow> ('f, 'v, 'b) res) \<Rightarrow> ('f, 'v, 'b) res" where
  "bnd m f =
     (case snd m of
        Inl e \<Rightarrow> (fst m, Inl e)
      | Inr x \<Rightarrow> (fst m @ fst (f x), snd (f x)))"

section \<open>Strings and paths\<close>

text \<open>Python's \<open>sub in s\<close> on strings.\<close>

fun contains :: "string \<Rightarrow> string \<Rightarrow> bool" where
  "contains sub [] = (sub = [])"
| "contains sub (c # cs) = (take (length sub) (c # cs) = sub \<or> contains sub cs)"

text \<open>Python's \<open>s.split(c)\<close> for a one-character separator: never empty.\<close>

fun split_on :: "char \<Rightarrow> string \<Rightarrow> string list" where
  "split_on c [] = [[]]"
| "split_on c (x # xs) =
     (if x = c then [] # split_on c xs
      else (case split_on c xs of
              [] \<Rightarrow> [[x]]
            | p # ps \<Rightarrow> (x # p) # ps))"

text \<open>Python's \<open>sep.join(xs)\<close>.\<close>

fun join :: "string \<Rightarrow> string list \<Rightarrow> string" where
  "join sep [] = []"
| "join sep [x] = x"
| "join sep (x # y # ys) = x @ sep @ join sep (y # ys)"

text \<open>Python's \<open>str(n)\<close> for a natural number.\<close>

definition digit :: "nat \<Rightarrow> char" where
  "digit d = ''0123456789'' ! d"

fun str_nat :: "nat \<Rightarrow> string" where
  "str_nat n = (if n < 10 then [digit n] else str_nat (n div 10) @ [digit (n mod 10)])"

declare str_nat.simps [simp del]

text \<open>
  \<open>PurePosixPath.name\<close>: the last component, after empty components and single dots are
  dropped; the empty string when there is none.
\<close>

definition last_part :: "string \<Rightarrow> string option" where
  "last_part s =
     (case rev (filter (\<lambda>p. p \<noteq> [] \<and> p \<noteq> ''.'') (split_on (CHR ''/'') s)) of
        [] \<Rightarrow> None
      | p # _ \<Rightarrow> Some p)"

fun path_name :: "path \<Rightarrow> string" where
  "path_name (Path s) = (case last_part s of None \<Rightarrow> [] | Some p \<Rightarrow> p)"
| "path_name (Div p s) = (case last_part s of None \<Rightarrow> path_name p | Some q \<Rightarrow> q)"

text \<open>\<open>Path(v)\<close> at line 127: \<open>Path(None)\<close> raises TypeError.\<close>

definition Path_of :: "string option \<Rightarrow> error + path" where
  "Path_of v = (case v of None \<Rightarrow> Inl TypeError | Some s \<Rightarrow> Inr (Path s))"

section \<open>\<open>create_outdir\<close>\<close>

definition stamp :: "datetime \<Rightarrow> string" where
  "stamp t =
     concat [str_nat (year t), ''-'', str_nat (month t), ''-'', str_nat (day t), ''_'',
             ''h'', str_nat (hour t), ''-'', ''m'', str_nat (minute t)]"

definition create_outdir ::
  "('f, 'v) world \<Rightarrow> path \<Rightarrow> 'f args \<Rightarrow> string \<Rightarrow> ('f, 'v, path) res" where
  "create_outdir w outdir a src =
     (let t = stamp (now w);
          l = [''cvf'' @ cv_folds a] @ cell_features a @ drug_features a @ [target_name a];
          l = (case clr_mode a of None \<Rightarrow> l | Some m \<Rightarrow> [m] @ l);
          l = (if contains ''nn'' (model_name a) then [opt a] @ l else l);
          name_sffx = join ''.'' ([src] @ [model_name a] @ l);
          outdir = Div outdir (name_sffx @ ''_'' @ t)
      in bnd (call_unit (MakeDirs outdir) (makedirs w outdir)) (\<lambda>_. ret outdir))"

section \<open>\<open>run\<close>: parameters and the ML type\<close>

definition SEED :: int where
  "SEED = 42"

text \<open>Lines 150-151.\<close>

definition opt_str :: "string option \<Rightarrow> 'f kwval" where
  "opt_str v = (case v of None \<Rightarrow> VNone | Some s \<Rightarrow> VStr s)"

definition clr_keras_kwargs :: "'f args \<Rightarrow> 'f kwargs" where
  "clr_keras_kwargs a =
     [(''mode'', opt_str (clr_mode a)), (''base_lr'', VFloat (clr_base_lr a)),
      (''max_lr'', VFloat (clr_max_lr a)), (''gamma'', VFloat (clr_gamma a))]"

text \<open>Lines 162-167.\<close>

definition derive_mltype :: "string \<Rightarrow> error + string" where
  "derive_mltype name =
     (if contains ''reg'' name then Inr ''reg''
      else if contains ''cls'' name then Inr ''cls''
      else Inl ValueError)"

section \<open>\<open>run\<close>: loading the data\<close>

text \<open>The nested \<open>read_data_file\<close>; with an unknown format \<open>df\<close> is never bound.\<close>

definition read_data_file ::
  "('f, 'v) world \<Rightarrow> path \<Rightarrow> string \<Rightarrow> ('f, 'v, 'v dataframe option) res" where
  "read_data_file w fpath file_format =
     bnd (call (IsFile fpath) (Inr (is_file w fpath))) (\<lambda>present.
       if present then
         (if file_format = ''csv'' then
            bnd (call (ReadCsv fpath) (read_csv w fpath)) (\<lambda>df. ret (Some df))
          else if file_format = ''parquet'' then
            bnd (call (ReadParquet fpath) (read_parquet w fpath)) (\<lambda>df. ret (Some df))
          else raise (UnboundLocalError ''df''))
       else ret None)"

text \<open>\<open>meta[[target_name]]\<close>: \<open>meta\<close> may be \<open>None\<close>, and the column may be missing.\<close>

definition select_column :: "'v dataframe option \<Rightarrow> string \<Rightarrow> error + 'v dataframe" where
  "select_column meta name =
     (case meta of
        None \<Rightarrow> Inl TypeError
      | Some df \<Rightarrow>
          (if name \<in> set (columns df) then Inr (filter (\<lambda>c. fst c = name) df)
           else Inl (KeyError name)))"

type_synonym 'v source_data =
  "'v dataframe \<times> 'v dataframe option \<times> 'v dataframe \<times> 'v dataframe"

text \<open>
  Lines 196-232. The local \<open>dirpath\<close> is tested against \<open>None\<close>; the other branch starts by
  reading the name \<open>dname\<close>, which is bound nowhere.
\<close>

definition load_data ::
  "('f, 'v) world \<Rightarrow> 'f args \<Rightarrow> path option \<Rightarrow> ('f, 'v, (string \<times> 'v source_data) list) res" where
  "load_data w a dirpath_local =
     (case dirpath_local of
        Some dp \<Rightarrow>
          bnd (read_data_file w (Div dp ''xdata.parquet'') ''parquet'') (\<lambda>xdata.
          bnd (read_data_file w (Div dp ''meta.parquet'') ''parquet'') (\<lambda>meta.
          bnd (lift (select_column meta (target_name a))) (\<lambda>ydata.
          bnd (call (ReadCsv (Div dp (cv_folds a @ ''fold_tr_id.csv'')))
                 (read_csv w (Div dp (cv_folds a @ ''fold_tr_id.csv'')))) (\<lambda>tr_id.
          bnd (call (ReadCsv (Div dp (cv_folds a @ ''fold_vl_id.csv'')))
                 (read_csv w (Div dp (cv_folds a @ ''fold_vl_id.csv'')))) (\<lambda>vl_id.
            (case split_on (CHR ''_'') (path_name dp) of
               [] \<Rightarrow> raise IndexError
             | src # _ \<Rightarrow> ret [(src, (ydata, xdata, tr_id, vl_id))]))))))
      | None \<Rightarrow> raise (NameError ''dname''))"

section \<open>\<open>run\<close>: one data source\<close>

text \<open>Lines 239-246: the local \<open>scaler\<close> is rebound to a scaler object for the three known names.\<close>

definition select_scaler :: "string option \<Rightarrow> scaler_val" where
  "select_scaler sc =
     (case sc of
        None \<Rightarrow> ScNone
      | Some s \<Rightarrow>
          (if s = ''stnd'' then ScObj StandardScaler
           else if s = ''minmax'' then ScObj MinMaxScaler
           else if s = ''rbst'' then ScObj RobustScaler
           else ScStr s))"

text \<open>
  \<open>pd.DataFrame(arr, columns=cols, dtype=np.float32)\<close>: \<open>arr\<close> is given by its columns; pandas
  raises ValueError when their number is not that of \<open>cols\<close>.
\<close>

definition DataFrame :: "('f, 'v) world \<Rightarrow> 'v list list \<Rightarrow> string list \<Rightarrow> error + 'v dataframe" where
  "DataFrame w arr cols =
     (if length arr = length cols then Inr (zip cols (map (map (float32 w)) arr))
      else Inl ValueError)"

text \<open>Lines 248-249. \<open>xdata\<close> is \<open>None\<close> when \<open>xdata.parquet\<close> was not a file.\<close>

definition scale_features ::
  "('f, 'v) world \<Rightarrow> scaler_val \<Rightarrow> 'v dataframe option \<Rightarrow> ('f, 'v, 'v dataframe) res" where
  "scale_features w sc xdata =
     (case xdata of
        None \<Rightarrow> raise (AttributeError ''columns'')
      | Some xd \<Rightarrow>
          (let cols = columns xd in
           (case sc of
              ScObj k \<Rightarrow>
                bnd (call (FitTransform k xd) (fit_transform w k xd)) (\<lambda>arr.
                  lift (DataFrame w arr cols))
            | ScStr _ \<Rightarrow> raise (AttributeError ''fit_transform'')
            | ScNone \<Rightarrow> raise (AttributeError ''fit_transform''))))"

text \<open>
  The values the conditions of lines 267-279 evaluate to. Python's \<open>a or b\<close> is \<open>a\<close> when \<open>a\<close>
  is truthy and \<open>b\<close> otherwise, and \<open>==\<close> binds tighter than \<open>or\<close>.
\<close>

datatype pyval = PyBool bool | PyStr string

fun truthy :: "pyval \<Rightarrow> bool" where
  "truthy (PyBool b) = b"
| "truthy (PyStr s) = (s \<noteq> [])"

definition py_or :: "pyval \<Rightarrow> pyval \<Rightarrow> pyval" where
  "py_or a b = (if truthy a then a else b)"

definition cond_nn_reg012 :: "string \<Rightarrow> pyval" where
  "cond_nn_reg012 name = py_or (py_or (PyBool (name = ''nn_reg0'')) (PyStr ''nn_reg1'')) (PyStr ''nn_reg2'')"

definition cond_nn_reg34 :: "string \<Rightarrow> pyval" where
  "cond_nn_reg34 name = py_or (PyBool (name = ''nn_reg3'')) (PyStr ''nn_reg4'')"

datatype branch = Br_lgb_reg | Br_nn_reg | Br_nn_reg012 | Br_nn_reg34 | Br_none

definition branch_taken :: "string \<Rightarrow> branch" where
  "branch_taken name =
     (if truthy (PyBool (name = ''lgb_reg'')) then Br_lgb_reg
      else if truthy (PyBool (name = ''nn_reg'')) then Br_nn_reg
      else if truthy (cond_nn_reg012 name) then Br_nn_reg012
      else if truthy (cond_nn_reg34 name) then Br_nn_reg34
      else Br_none)"

record 'f model_cfg =
  framework :: string
  init_kwargs :: "'f kwargs"
  fit_kwargs :: "'f kwargs"

text \<open>
  Lines 267-282. In the \<open>nn_reg\<close> branch the dict display reads the name \<open>attn\<close>, which is
  bound nowhere in the module. When no branch is taken the three locals stay unbound
  (\<open>None\<close> here).
\<close>

definition ml_model_configs :: "'f args \<Rightarrow> 'v dataframe \<Rightarrow> error + 'f model_cfg option" where
  "ml_model_configs a xdata =
     (case branch_taken (model_name a) of
        Br_lgb_reg \<Rightarrow>
          Inr (Some \<lparr>framework = ''lightgbm'',
                     init_kwargs = [(''n_jobs'', VInt (n_jobs a)), (''random_state'', VInt SEED),
                                    (''logger'', VLogger)],
                     fit_kwargs = [(''verbose'', VBool False)]\<rparr>)
      | Br_nn_reg \<Rightarrow> Inl (NameError ''attn'')
      | Br_nn_reg012 \<Rightarrow>
          Inr (Some \<lparr>framework = ''keras'',
                     init_kwargs = [(''input_dim'', VInt (int (length (columns xdata)))),
                                    (''dr_rate'', VFloat (dr_rate a)), (''opt_name'', VStr (opt a)),
                                    (''logger'', VLogger)],
                     fit_kwargs = [(''batch_size'', VInt (batch_size a)), (''epochs'', VInt (epochs a)),
                                   (''verbose'', VInt 1)]\<rparr>)
      | Br_nn_reg34 \<Rightarrow>
          Inr (Some \<lparr>framework = ''keras'',
                     init_kwargs = [(''in_dim_rna'', VNone), (''in_dim_dsc'', VNone),
                                    (''dr_rate'', VFloat (dr_rate a)), (''opt_name'', VStr (opt a)),
                                    (''logger'', VLogger)],
                     fit_kwargs = [(''batch_size'', VInt (batch_size a)), (''epochs'', VInt (epochs a)),
                                   (''verbose'', VInt 1)]\<rparr>)
      | Br_none \<Rightarrow> Inr None)"

text \<open>Lines 293-299: the engine is built, then asked for the curve.\<close>

definition learning_curve ::
  "('f, 'v) world \<Rightarrow> 'f args \<Rightarrow> string \<Rightarrow> 'v source_data \<Rightarrow> 'v dataframe \<Rightarrow> path \<Rightarrow>
   'f model_cfg option \<Rightarrow> ('f, 'v, unit) res" where
  "learning_curve w a mltype data xdata run_outdir cfg =
     (case data of (ydata, _, tr_id, vl_id) \<Rightarrow>
        (let lc = \<lparr>lc_X = xdata, lc_Y = ydata, lc_cv_lists = (tr_id, vl_id),
                   lc_n_shards = n_shards a, lc_shard_step_scale = ''log10'',
                   lc_args = a, lc_outdir = run_outdir\<rparr>
         in bnd (call_unit (LCInit lc) (LearningCurve w lc)) (\<lambda>_.
              (case cfg of
                 None \<Rightarrow> raise (UnboundLocalError ''framework'')
               | Some c \<Rightarrow>
                   (let tc = \<lparr>trn_framework = framework c, trn_mltype = mltype,
                              trn_model_name = model_name a,
                              trn_init_kwargs = init_kwargs c, trn_fit_kwargs = fit_kwargs c,
                              trn_clr_keras_kwargs = clr_keras_kwargs a,
                              trn_n_jobs = n_jobs a, trn_random_state = SEED\<rparr>
                    in call_unit (TrnLearningCurve tc) (trn_learning_curve w lc tc))))))"

text \<open>
  The body of the loop over \<open>dfs.items()\<close>, lines 235-336: the features are scaled, then
  (\<open>train_source\<close>) the output directory and the logger are made, the model is configured
  and the engine runs. Logging calls do not raise.
\<close>

definition train_source ::
  "('f, 'v) world \<Rightarrow> 'f args \<Rightarrow> string \<Rightarrow> string \<Rightarrow> 'v source_data \<Rightarrow> 'v dataframe \<Rightarrow>
   ('f, 'v, unit) res" where
  "train_source w a mltype src data xdata =
     bnd (create_outdir w (OUTDIR w) a src) (\<lambda>run_outdir.
     bnd (call_unit (LoggerOpen (Div run_outdir ''logfile.log''))
            (Logger w (Div run_outdir ''logfile.log''))) (\<lambda>_.
     bnd (call_unit LogInfo None) (\<lambda>_.
     bnd (call_unit LogInfo None) (\<lambda>_.
     bnd (call_unit (DumpDict (Div run_outdir ''args.txt''))
            (dump_dict w a (Div run_outdir ''args.txt''))) (\<lambda>_.
     bnd (lift (ml_model_configs a xdata)) (\<lambda>cfg.
     bnd (call_unit LogInfo None) (\<lambda>_.
     bnd (call_unit LogInfo None) (\<lambda>_.
     bnd (call_unit LogInfo None) (\<lambda>_.
     bnd (learning_curve w a mltype data xdata run_outdir cfg) (\<lambda>_.
     bnd (call_unit LogInfo None) (\<lambda>_.
       call_unit KillLogger None)))))))))))"

definition process_source ::
  "('f, 'v) world \<Rightarrow> 'f args \<Rightarrow> string \<Rightarrow> string \<Rightarrow> 'v source_data \<Rightarrow> ('f, 'v, unit) res" where
  "process_source w a mltype src data =
     bnd (scale_features w (select_scaler (scaler a)) (fst (snd data)))
       (train_source w a mltype src data)"

fun for_sources ::
  "('f, 'v) world \<Rightarrow> 'f args \<Rightarrow> string \<Rightarrow> (string \<times> 'v source_data) list \<Rightarrow> ('f, 'v, unit) res" where
  "for_sources w a mltype [] = ret ()"
| "for_sources w a mltype (d # ds) =
     bnd (process_source w a mltype (fst d) (snd d)) (\<lambda>_. for_sources w a mltype ds)"

section \<open>\<open>run\<close>\<close>

text \<open>
  Lines 126-338. \<open>Path(args['dirpath'])\<close> is the first statement; the reads of the other
  keys and \<open>fea_list = cell_fea + drug_fea + other_fea\<close> (lines 132-159) cannot raise on
  these types and call no collaborator, so they leave no mark here. Then come the ML type,
  the loading of the data, the loop over the sources and the final \<open>print\<close>.
\<close>

definition run :: "('f, 'v) world \<Rightarrow> 'f args \<Rightarrow> ('f, 'v, unit) res" where
  "run w a =
     bnd (lift (Path_of (dirpath a))) (\<lambda>dp.
     bnd (lift (derive_mltype (model_name a))) (\<lambda>mltype.
     bnd (load_data w a (Some dp)) (\<lambda>dfs.
     bnd (for_sources w a mltype dfs) (\<lambda>_.
       call_unit (Print ''Done.'') None))))"

section \<open>Properties of traces and results\<close>

fun is_fit_transform :: "('f, 'v) event \<Rightarrow> bool" where
  "is_fit_transform (FitTransform k xd) = True"
| "is_fit_transform ev = False"

fun is_load_event :: "('f, 'v) event \<Rightarrow> bool" where
  "is_load_event (IsFile p) = True"
| "is_load_event (ReadParquet p) = True"
| "is_load_event (ReadCsv p) = True"
| "is_load_event ev = False"

fun is_engine_event :: "('f, 'v) event \<Rightarrow> bool" where
  "is_engine_event (LCInit c) = True"
| "is_engine_event (TrnLearningCurve t) = True"
| "is_engine_event ev = False"

text \<open>What every call into the engine made by \<open>run\<close> on \<open>a\<close> carries.\<close>

definition engine_call_ok :: "'f args \<Rightarrow> ('f, 'v) event \<Rightarrow> bool" where
  "engine_call_ok a ev =
     (case ev of
        LCInit c \<Rightarrow>
          lc_shard_step_scale c = ''log10'' \<and> lc_n_shards c = n_shards a \<and> lc_args c = a
      | TrnLearningCurve t \<Rightarrow>
          trn_random_state t = 42 \<and> derive_mltype (model_name a) = Inr (trn_mltype t) \<and>
          trn_model_name t = model_name a \<and> trn_n_jobs t = n_jobs a \<and>
          trn_clr_keras_kwargs t = clr_keras_kwargs a \<and>
          map_of (trn_init_kwargs t) ''random_state'' =
            (if model_name a = ''lgb_reg'' then Some (VInt 42) else None)
      | _ \<Rightarrow> True)"

text \<open>The exception a computation ends with, if any, satisfies \<open>R\<close>.\<close>

definition errs_in :: "(error \<Rightarrow> bool) \<Rightarrow> ('f, 'v, 'a) res \<Rightarrow> bool" where
  "errs_in R m = (case snd m of Inl e \<Rightarrow> R e | Inr _ \<Rightarrow> True)"

text \<open>
  If \<open>dump_dict\<close> was called and returned, the computation ends with the NameError on
  \<open>attn\<close>.
\<close>

definition dump_then_attn :: "('f, 'v) world \<Rightarrow> 'f args \<Rightarrow> ('f, 'v, 'a) res \<Rightarrow> bool" where
  "dump_then_attn w a m =
     (\<forall>p. DumpDict p \<in> set (fst m) \<longrightarrow> dump_dict w a p = None \<longrightarrow> snd m = Inl (NameError ''attn''))"

fun is_dump_dict :: "('f, 'v) event \<Rightarrow> bool" where
  "is_dump_dict (DumpDict p) = True"
| "is_dump_dict ev = False"

section \<open>A concrete run\<close>

text \<open>
  The dict \<open>parse_args\<close> returns when only \<open>--dirpath data/ccle_cv_simple\<close> is given: every
  other key has the parser's default. Floats are written as their literals.
\<close>

definition default_args :: "string args" where
  "default_args =
     \<lparr>dirpath = Some ''data/ccle_cv_simple'', target_name = ''AUC'', cell_features = [''rna''],
      drug_features = [''dsc''], other_features = [], cv_method = ''simple'', cv_folds = ''5'',
      model_name = ''lgb_reg'', epochs = 200, batch_size = 32, dr_rate = ''0.2'',
      scaler = Some ''stnd'', opt = ''sgd'', clr_mode = None, clr_base_lr = ''1e-4'',
      clr_max_lr = ''1e-3'', clr_gamma = ''0.999994'', n_shards = 5, n_jobs = 4\<rparr>"

definition demo_xdata :: "int dataframe" where
  "demo_xdata = [(''g1'', [1, 2, 3]), (''g2'', [4, 5, 6])]"

text \<open>A world where every file is present and no collaborator raises.\<close>

definition demo_world :: "(string, int) world" where
  "demo_world =
     \<lparr>OUTDIR = Path ''out/LearningCurves'',
      is_file = (\<lambda>_. True),
      read_parquet = (\<lambda>p. if p = Div (Path ''data/ccle_cv_simple'') ''xdata.parquet''
                           then Inr demo_xdata
                           else Inr [(''AUC'', [7, 8, 9]), (''CELL'', [0, 0, 0])]),
      read_csv = (\<lambda>_. Inr [(''fold0'', [0, 1])]),
      fit_transform = (\<lambda>k df. Inr (map snd df)),
      float32 = (\<lambda>v. v),
      now = \<lparr>year = 2019, month = 7, day = 4, hour = 12, minute = 30\<rparr>,
      makedirs = (\<lambda>_. None),
      Logger = (\<lambda>_. None),
      dump_dict = (\<lambda>_ _. None),
      LearningCurve = (\<lambda>_. None),
      trn_learning_curve = (\<lambda>_ _. None)\<rparr>"

definition demo_outdir :: path where
  "demo_outdir = Div (Path ''out/LearningCurves'') ''ccle.lgb_reg.cvf5.rna.dsc.AUC_2019-7-4_h12-m30''"

definition demo_lc_call :: "(string, int) lc_call" where
  "demo_lc_call =
     \<lparr>lc_X = demo_xdata, lc_Y = [(''AUC'', [7, 8, 9])],
      lc_cv_lists = ([(''fold0'', [0, 1])], [(''fold0'', [0, 1])]),
      lc_n_shards = 5, lc_shard_step_scale = ''log10'',
      lc_args = default_args, lc_outdir = demo_outdir\<rparr>"

definition demo_trn_call :: "string trn_call" where
  "demo_trn_call =
     \<lparr>trn_framework = ''lightgbm'', trn_mltype = ''reg'', trn_model_name = ''lgb_reg'',
      trn_init_kwargs = [(''n_jobs'', VInt 4), (''random_state'', VInt 42), (''logger'', VLogger)],
      trn_fit_kwargs = [(''verbose'', VBool False)],
      trn_clr_keras_kwargs = [(''mode'', VNone), (''base_lr'', VFloat ''1e-4''),
                              (''max_lr'', VFloat ''1e-3''), (''gamma'', VFloat ''0.999994'')],
      trn_n_jobs = 4, trn_random_state = 42\<rparr>"

definition demo_trace :: "(string, int) event list" where
  "demo_trace =
     [IsFile (Div (Path ''data/ccle_cv_simple'') ''xdata.parquet''),
      ReadParquet (Div (Path ''data/ccle_cv_simple'') ''xdata.parquet''),
      IsFile (Div (Path ''data/ccle_cv_simple'') ''meta.parquet''),
      ReadParquet (Div (Path ''data/ccle_cv_simple'') ''meta.parquet''),
      ReadCsv (Div (Path ''data/ccle_cv_simple'') ''5fold_tr_id.csv''),
      ReadCsv (Div (Path ''data/ccle_cv_simple'') ''5fold_vl_id.csv''),
      FitTransform StandardScaler demo_xdata,
      MakeDirs demo_outdir,
      LoggerOpen (Div demo_outdir ''logfile.log''),
      LogInfo, LogInfo,
      DumpDict (Div demo_outdir ''args.txt''),
      LogInfo, LogInfo, LogInfo,
      LCInit demo_lc_call,
      TrnLearningCurve demo_trn_call,
      LogInfo, KillLogger, Print ''Done.'']"

definition demo_data :: "int source_data" where
  "demo_data = ([(''AUC'', [7, 8, 9])], Some demo_xdata, [(''fold0'', [0, 1])], [(''fold0'', [0, 1])])"



definition nn_args :: "string args" where
  "nn_args = default_args\<lparr>model_name := ''nn_reg''\<rparr>"

definition nn_outdir :: path where
  "nn_outdir = Div (Path ''out/LearningCurves'') ''ccle.nn_reg.sgd.cvf5.rna.dsc.AUC_2019-7-4_h12-m30''"

text \<open>The same arguments with \<open>-sc minmax\<close>, and with \<open>-sc rbst\<close>.\<close>

definition minmax_args :: "string args" where
  "minmax_args = default_args\<lparr>scaler := Some ''minmax''\<rparr>"

definition rbst_args :: "string args" where
  "rbst_args = default_args\<lparr>scaler := Some ''rbst''\<rparr>"

section \<open>Sequencing lemmas\<close>

lemma fst_bnd: "fst (bnd m f) = fst m @ (case snd m of Inl e \<Rightarrow> [] | Inr x \<Rightarrow> fst (f x))"
  by (simp add: bnd_def split: sum.split)

lemma snd_bnd: "snd (bnd m f) = (case snd m of Inl e \<Rightarrow> Inl e | Inr x \<Rightarrow> snd (f x))"
  by (simp add: bnd_def split: sum.split)

lemma bnd_lift_Inl: "bnd (lift (Inl e)) f = ([], Inl e)"
  by (simp add: bnd_def lift_def)

lemma bnd_lift_Inr: "bnd (lift (Inr x)) f = f x"
  by (simp add: bnd_def lift_def)

lemma bnd_Inr: "bnd (t, Inr x) f = (t @ fst (f x), snd (f x))"
  by (simp add: bnd_def)

lemma bnd_Inl: "bnd (t, Inl e) f = (t, Inl e)"
  by (simp add: bnd_def)

lemma events_bnd:
  assumes "list_all P (fst m)" and "\<And>x. snd m = Inr x \<Longrightarrow> list_all P (fst (f x))"
  shows "list_all P (fst (bnd m f))"
  using assms by (simp add: fst_bnd split: sum.split)

lemma events_call: "list_all P (fst (call ev outcome)) = P ev"
  by (simp add: call_def)

lemma events_call_unit: "list_all P (fst (call_unit ev outcome)) = P ev"
  by (simp add: call_unit_def)

lemma events_pure:
  "list_all P (fst (ret x))" "list_all P (fst (raise e))" "list_all P (fst (lift r))"
  by (simp_all add: ret_def raise_def lift_def)

lemma errs_bnd:
  assumes "errs_in R m" and "\<And>x. snd m = Inr x \<Longrightarrow> errs_in R (f x)"
  shows "errs_in R (bnd m f)"
  using assms by (simp add: errs_in_def snd_bnd split: sum.splits)

lemma errs_call: "(\<And>who. R (Raised who)) \<Longrightarrow> errs_in R (call ev outcome)"
  by (simp add: errs_in_def call_def split: sum.split)

lemma errs_call_unit: "(\<And>who. R (Raised who)) \<Longrightarrow> errs_in R (call_unit ev outcome)"
  by (simp add: errs_in_def call_unit_def split: option.split)

lemma errs_ret: "errs_in R (ret x)"
  by (simp add: errs_in_def ret_def)

lemma errs_raise: "errs_in R (raise e) = R e"
  by (simp add: errs_in_def raise_def)

lemma errs_lift: "errs_in R (lift r) = (case r of Inl e \<Rightarrow> R e | Inr _ \<Rightarrow> True)"
  by (simp add: errs_in_def lift_def)

section \<open>Events of the parts of run\<close>

lemma create_outdir_events:
  "(\<And>p. P (MakeDirs p)) \<Longrightarrow> list_all P (fst (create_outdir w outdir a src))"
  by (simp add: create_outdir_def Let_def events_bnd events_call_unit events_pure)

lemma read_data_file_events:
  assumes "\<And>p. P (IsFile p)" "\<And>p. P (ReadParquet p)" "\<And>p. P (ReadCsv p)"
  shows "list_all P (fst (read_data_file w fpath fmt))"
  unfolding read_data_file_def
  by (intro events_bnd) (simp_all add: events_call events_pure events_bnd assms)

lemma load_data_events:
  assumes "\<And>p. P (IsFile p)" "\<And>p. P (ReadParquet p)" "\<And>p. P (ReadCsv p)"
  shows "list_all P (fst (load_data w a dp))"
proof (cases dp)
  case None
  then show ?thesis by (simp add: load_data_def events_pure)
next
  case (Some p)
  show ?thesis
    unfolding load_data_def Some option.case
    by (intro events_bnd read_data_file_events)
       (simp_all add: assms events_call events_pure split: list.split)
qed

lemma scale_features_events:
  assumes "\<And>k xd. P (FitTransform k xd)"
  shows "list_all P (fst (scale_features w sc xdata))"
  unfolding scale_features_def
  by (simp add: Let_def events_bnd events_call events_pure assms
        split: option.split scaler_val.split)

lemma for_sources_events:
  assumes "\<And>d. list_all P (fst (process_source w a mltype (fst d) (snd d)))"
  shows "list_all P (fst (for_sources w a mltype dfs))"
  by (induction dfs) (simp_all add: events_pure events_bnd assms)

section \<open>Model selection\<close>

lemma truthy_cond_nn_reg012: "truthy (cond_nn_reg012 name)"
  by (simp add: cond_nn_reg012_def py_or_def)

lemma branch_taken_cases:
  "branch_taken name =
     (if name = ''lgb_reg'' then Br_lgb_reg else if name = ''nn_reg'' then Br_nn_reg else Br_nn_reg012)"
  by (simp add: branch_taken_def truthy_cond_nn_reg012)

lemma ml_model_configs_seed:
  "ml_model_configs a xd = Inr (Some c) \<Longrightarrow>
   map_of (init_kwargs c) ''random_state'' =
     (if model_name a = ''lgb_reg'' then Some (VInt 42) else None)"
  by (auto simp: ml_model_configs_def branch_taken_cases SEED_def split: if_splits)

lemma ml_model_configs_nn_reg:
  "model_name a = ''nn_reg'' \<Longrightarrow> ml_model_configs a xd = Inl (NameError ''attn'')"
  by (simp add: ml_model_configs_def branch_taken_cases)

section \<open>Engine calls\<close>

lemma learning_curve_events:
  assumes "derive_mltype (model_name a) = Inr mltype"
    and "\<And>c. cfg = Some c \<Longrightarrow> map_of (init_kwargs c) ''random_state'' =
        (if model_name a = ''lgb_reg'' then Some (VInt 42) else None)"
  shows "list_all (engine_call_ok a)
     (fst (learning_curve w a mltype data xdata run_outdir cfg))"
  unfolding learning_curve_def
  by (cases data; cases cfg)
     (simp_all add: Let_def fst_bnd call_unit_def raise_def engine_call_ok_def SEED_def assms
        split: option.split)

lemma train_source_events:
  assumes "derive_mltype (model_name a) = Inr mltype"
  shows "list_all (engine_call_ok a) (fst (train_source w a mltype src data xdata))"
  unfolding train_source_def
  apply (intro events_bnd create_outdir_events learning_curve_events assms)
  apply (simp_all add: events_call_unit events_pure engine_call_ok_def)
  apply (simp add: lift_def ml_model_configs_seed)
  done

lemma process_source_events:
  assumes "derive_mltype (model_name a) = Inr mltype"
  shows "list_all (engine_call_ok a) (fst (process_source w a mltype src data))"
  unfolding process_source_def
  by (intro events_bnd scale_features_events train_source_events assms)
     (simp add: engine_call_ok_def)

lemma run_events: "list_all (engine_call_ok a) (fst (run w a))"
  unfolding run_def
  apply (intro events_bnd load_data_events for_sources_events process_source_events)
  apply (simp_all add: events_pure events_call_unit engine_call_ok_def lift_def)
  done

lemma run_engine_call:
  "ev \<in> set (fst (run w a)) \<Longrightarrow> engine_call_ok a ev"
  using run_events [of a w] by (simp add: list_all_iff)

section \<open>Exceptions of the parts of run\<close>

lemma read_data_file_errs:
  assumes "\<And>who. R (Raised who)" "R (UnboundLocalError ''df'')"
  shows "errs_in R (read_data_file w fpath fmt)"
  unfolding read_data_file_def
  by (intro errs_bnd) (simp_all add: errs_call errs_ret errs_raise errs_bnd assms)

lemma load_data_Some_errs:
  assumes "\<And>who. R (Raised who)" "R (UnboundLocalError ''df'')" "R TypeError"
    "\<And>k. R (KeyError k)" "R IndexError"
  shows "errs_in R (load_data w a (Some dp))"
  unfolding load_data_def option.case
  by (intro errs_bnd read_data_file_errs)
     (simp_all add: assms errs_call errs_ret errs_raise errs_lift select_column_def
        split: list.split option.split)

lemma scale_features_errs:
  assumes "\<And>who. R (Raised who)" "\<And>n. R (AttributeError n)" "R ValueError"
  shows "errs_in R (scale_features w sc xdata)"
  unfolding scale_features_def
  by (simp add: Let_def errs_bnd errs_call errs_raise errs_lift DataFrame_def assms
        split: option.split scaler_val.split)

lemma create_outdir_errs:
  assumes "\<And>who. R (Raised who)"
  shows "errs_in R (create_outdir w outdir a src)"
  by (simp add: create_outdir_def Let_def errs_bnd errs_call_unit errs_ret assms)

lemma learning_curve_errs:
  assumes "\<And>who. R (Raised who)" "R (UnboundLocalError ''framework'')"
  shows "errs_in R (learning_curve w a mltype data xdata run_outdir cfg)"
  unfolding learning_curve_def
  by (cases data)
     (simp add: Let_def errs_bnd errs_call_unit errs_raise assms split: option.split)

lemma train_source_errs:
  assumes "\<And>who. R (Raised who)" "R (UnboundLocalError ''framework'')" "R (NameError ''attn'')"
  shows "errs_in R (train_source w a mltype src data xdata)"
  unfolding train_source_def
  by (intro errs_bnd create_outdir_errs learning_curve_errs)
     (simp_all add: assms errs_call_unit errs_lift ml_model_configs_def split: branch.split)

lemma for_sources_errs:
  assumes "\<And>d. errs_in R (process_source w a mltype (fst d) (snd d))"
  shows "errs_in R (for_sources w a mltype dfs)"
  by (induction dfs) (simp_all add: errs_ret errs_bnd assms)

lemma run_errs:
  assumes "\<And>who. R (Raised who)" "\<And>n. R (UnboundLocalError n)" "R (NameError ''attn'')"
    "R TypeError" "R ValueError" "\<And>k. R (KeyError k)" "R IndexError" "\<And>n. R (AttributeError n)"
  shows "errs_in R (run w a)"
proof -
  have "errs_in R (process_source w a mltype src data)" for mltype src data
    unfolding process_source_def
    by (intro errs_bnd scale_features_errs train_source_errs) (simp_all add: assms)
  then show ?thesis
    unfolding run_def
    by (intro errs_bnd load_data_Some_errs for_sources_errs)
       (simp_all add: assms errs_call_unit errs_lift Path_of_def derive_mltype_def
          split: option.split)
qed

lemma run_Path_None: "dirpath a = None \<Longrightarrow> run w a = ([], Inl TypeError)"
  by (simp add: run_def Path_of_def bnd_lift_Inl)

lemma run_no_mltype:
  "dirpath a = Some d \<Longrightarrow> derive_mltype (model_name a) = Inl e \<Longrightarrow> run w a = ([], Inl e)"
  by (simp add: run_def Path_of_def bnd_lift_Inl bnd_lift_Inr)

section \<open>Substrings\<close>



section \<open>The ML type handed to the engine\<close>


section \<open>The \<open>nn_reg\<close> model\<close>

lemma dump_bnd:
  assumes "dump_then_attn w a m" and "\<And>x. snd m = Inr x \<Longrightarrow> dump_then_attn w a (f x)"
  shows "dump_then_attn w a (bnd m f)"
  using assms
  by (cases "snd m") (auto simp: dump_then_attn_def fst_bnd snd_bnd)

lemma dump_no_event:
  "list_all (\<lambda>ev. \<not> is_dump_dict ev) (fst m) \<Longrightarrow> dump_then_attn w a m"
  by (auto simp: dump_then_attn_def list_all_iff)

lemma train_source_nn_reg_dump:
  assumes "model_name a = ''nn_reg''"
  shows "dump_then_attn w a (train_source w a mltype src data xdata)"
  by (auto simp: dump_then_attn_def train_source_def create_outdir_def Let_def
        ml_model_configs_nn_reg [OF assms] fst_bnd snd_bnd call_unit_def ret_def lift_def
        split: option.splits)

lemma process_source_nn_reg_dump:
  assumes "model_name a = ''nn_reg''"
  shows "dump_then_attn w a (process_source w a mltype src data)"
  unfolding process_source_def
  by (intro dump_bnd dump_no_event scale_features_events train_source_nn_reg_dump assms) simp

lemma train_source_nn_reg_fails:
  assumes "model_name a = ''nn_reg''"
  shows "snd (train_source w a mltype src data xdata) \<noteq> Inr ()"
  by (simp add: train_source_def snd_bnd ml_model_configs_nn_reg [OF assms] lift_def
        split: sum.split)

lemma process_source_nn_reg_fails:
  assumes "model_name a = ''nn_reg''"
  shows "snd (process_source w a mltype src data) \<noteq> Inr ()"
  by (simp add: process_source_def snd_bnd train_source_nn_reg_fails [OF assms] split: sum.split)

lemma load_data_result:
  assumes "snd (load_data w a (Some dp)) = Inr dfs"
  shows "\<exists>src ydata xdata tr_id vl_id. dfs = [(src, (ydata, xdata, tr_id, vl_id))] \<and>
           (\<forall>xd. xdata = Some xd \<longrightarrow> read_parquet w (Div dp ''xdata.parquet'') = Inr xd)"
  using assms
  by (auto simp: load_data_def read_data_file_def snd_bnd call_def ret_def raise_def lift_def
        split: sum.splits if_splits list.splits)

lemma for_sources_nn_reg_dump:
  assumes "model_name a = ''nn_reg''"
  shows "dump_then_attn w a (for_sources w a mltype dfs)"
proof (induction dfs)
  case Nil
  show ?case by (simp add: dump_then_attn_def ret_def)
next
  case (Cons d dfs)
  show ?case
    unfolding for_sources.simps
    by (rule dump_bnd) (simp_all add: process_source_nn_reg_dump [OF assms] Cons.IH)
qed

lemma train_source_nn_reg_no_engine:
  assumes "model_name a = ''nn_reg''"
  shows "list_all (\<lambda>ev. \<not> is_engine_event ev) (fst (train_source w a mltype src data xdata))"
  unfolding train_source_def
  by (intro events_bnd create_outdir_events)
     (simp_all add: events_call_unit events_pure lift_def ml_model_configs_nn_reg [OF assms])

section \<open>Scaling comes first\<close>

lemma learning_curve_X:
  "list_all (\<lambda>ev. \<not> is_fit_transform ev \<and> (\<forall>c. ev = LCInit c \<longrightarrow> lc_X c = xdata))
     (fst (learning_curve w a mltype data xdata run_outdir cfg))"
  unfolding learning_curve_def
  by (cases data; cases cfg)
     (simp_all add: Let_def fst_bnd call_unit_def raise_def split: option.split)

lemma train_source_X:
  "list_all (\<lambda>ev. \<not> is_fit_transform ev \<and> (\<forall>c. ev = LCInit c \<longrightarrow> lc_X c = xdata))
     (fst (train_source w a mltype src data xdata))"
  unfolding train_source_def
  by (intro events_bnd create_outdir_events learning_curve_X)
     (simp_all add: events_call_unit events_pure)

lemma process_source_trace:
  "fst (process_source w a mltype src data) = [] \<or>
   (\<exists>k xd T. fst (process_source w a mltype src data) = FitTransform k xd # T \<and>
      fst (snd data) = Some xd \<and> select_scaler (scaler a) = ScObj k \<and>
      list_all (\<lambda>ev. \<not> is_fit_transform ev) T \<and>
      (\<forall>c. LCInit c \<in> set T \<longrightarrow>
         (\<exists>arr. fit_transform w k xd = Inr arr \<and> length arr = length (columns xd) \<and>
                lc_X c = zip (columns xd) (map (map (float32 w)) arr))))"
proof (cases "fst (snd data)")
  case None
  then show ?thesis
    by (simp add: process_source_def scale_features_def raise_def bnd_Inl)
next
  case (Some xd)
  show ?thesis
  proof (cases "select_scaler (scaler a)")
    case ScNone
    with Some show ?thesis
      by (simp add: process_source_def scale_features_def raise_def bnd_Inl)
  next
    case (ScStr n)
    with Some show ?thesis
      by (simp add: process_source_def scale_features_def raise_def bnd_Inl)
  next
    case (ScObj k)
    show ?thesis
    proof (cases "fit_transform w k xd")
      case (Inl who)
      with Some ScObj have "fst (process_source w a mltype src data) = [FitTransform k xd]"
        by (simp add: process_source_def scale_features_def call_def bnd_Inl)
      with Some ScObj show ?thesis by simp
    next
      case (Inr arr)
      show ?thesis
      proof (cases "length arr = length (columns xd)")
        case False
        with Some ScObj Inr have "fst (process_source w a mltype src data) = [FitTransform k xd]"
          by (simp add: process_source_def scale_features_def call_def bnd_Inl bnd_Inr
                lift_def DataFrame_def)
        with Some ScObj show ?thesis by simp
      next
        case True
        define X where "X = zip (columns xd) (map (map (float32 w)) arr)"
        define T where "T = fst (train_source w a mltype src data X)"
        from Some ScObj Inr True
        have tr: "fst (process_source w a mltype src data) = FitTransform k xd # T"
          by (simp add: process_source_def scale_features_def call_def bnd_Inr
                lift_def DataFrame_def X_def T_def)
        from train_source_X [of X w a mltype src data]
        have "list_all (\<lambda>ev. \<not> is_fit_transform ev) T"
          and "\<forall>c. LCInit c \<in> set T \<longrightarrow> lc_X c = X"
          by (auto simp: T_def list_all_iff)
        with tr Some ScObj Inr True show ?thesis
          by (auto simp: X_def)
      qed
    qed
  qed
qed

lemma load_events_filter:
  assumes "list_all is_load_event L"
  shows "filter is_fit_transform L = []" and "LCInit c \<notin> set L" and "FitTransform k xd \<notin> set L"
  using assms by (auto simp: list_all_iff filter_empty_conv elim!: is_fit_transform.elims)

lemma columns_zip: "length arr = length cols \<Longrightarrow> columns (zip cols arr) = cols"
  by (simp add: columns_def)

lemma run_trace:
  fixes w :: "('f, 'v) world"
  assumes d: "dirpath a = Some d" and mt: "derive_mltype (model_name a) = Inr mt"
  shows "\<exists>L. list_all is_load_event L \<and>
           (fst (run w a) = L \<or>
            (\<exists>src data P. fst (run w a) = L @ fst (process_source w a mt src data) @ P \<and>
               (P = [] \<or> P = [Print ''Done.'']) \<and>
               (\<forall>xd. fst (snd data) = Some xd \<longrightarrow>
                  read_parquet w (Div (Path d) ''xdata.parquet'') = Inr xd)))"
proof -
  define ld where "ld = load_data w a (Some (Path d))"
  have L: "list_all is_load_event (fst ld)"
    unfolding ld_def by (rule load_data_events) simp_all
  have run_eq: "run w a =
      bnd ld (\<lambda>dfs. bnd (for_sources w a mt dfs) (\<lambda>_. call_unit (Print ''Done.'') None))"
    by (simp add: run_def Path_of_def d mt bnd_lift_Inr ld_def)
  show ?thesis
  proof (cases "snd ld")
    case (Inl e)
    then have "fst (run w a) = fst ld"
      by (simp add: run_eq fst_bnd)
    with L show ?thesis by blast
  next
    case (Inr dfs)
    from load_data_result [of w a "Path d" dfs] Inr
    obtain src ydata xdata tr_id vl_id
      where dfs: "dfs = [(src, (ydata, xdata, tr_id, vl_id))]"
        and x: "\<forall>xd. xdata = Some xd \<longrightarrow> read_parquet w (Div (Path d) ''xdata.parquet'') = Inr xd"
      unfolding ld_def by blast
    define data where "data = (ydata, xdata, tr_id, vl_id)"
    define P :: "('f, 'v) event list"
      where "P = (case snd (process_source w a mt src data) of
                    Inl e \<Rightarrow> [] | Inr u \<Rightarrow> [Print ''Done.''])"
    have "fst (run w a) = fst ld @ fst (process_source w a mt src data) @ P"
      unfolding run_eq P_def
      by (simp add: fst_bnd snd_bnd Inr dfs data_def ret_def call_unit_def split: sum.split)
    moreover have "P = [] \<or> P = [Print ''Done.'']"
      by (simp add: P_def split: sum.split)
    moreover have "\<forall>xd. fst (snd data) = Some xd \<longrightarrow>
                  read_parquet w (Div (Path d) ''xdata.parquet'') = Inr xd"
      using x by (simp add: data_def)
    ultimately show ?thesis using L by blast
  qed
qed

lemma run_scaling_shape:
  assumes sc: "scaler a = Some s" and s: "s = ''stnd'' \<or> s = ''minmax'' \<or> s = ''rbst''"
  shows "length (filter is_fit_transform (fst (run w a))) \<le> 1 \<and>
         (\<forall>k xd. FitTransform k xd \<in> set (fst (run w a)) \<longrightarrow>
            k = (if s = ''stnd'' then StandardScaler
                 else if s = ''minmax'' then MinMaxScaler else RobustScaler) \<and>
            (\<exists>d. dirpath a = Some d \<and> read_parquet w (Div (Path d) ''xdata.parquet'') = Inr xd)) \<and>
         (\<forall>c. LCInit c \<in> set (fst (run w a)) \<longrightarrow>
            (\<exists>pre k xd arr post.
               fst (run w a) = pre @ FitTransform k xd # post \<and>
               filter is_fit_transform (fst (run w a)) = [FitTransform k xd] \<and>
               LCInit c \<in> set post \<and> fit_transform w k xd = Inr arr \<and>
               lc_X c = zip (columns xd) (map (map (float32 w)) arr) \<and>
               columns (lc_X c) = columns xd))"
    (is "?A \<and> ?B \<and> ?C")
proof (cases "dirpath a")
  case None
  then show ?thesis by (simp add: run_Path_None)
next
  case (Some d)
  show ?thesis
  proof (cases "derive_mltype (model_name a)")
    case (Inl e)
    with Some show ?thesis by (simp add: run_no_mltype)
  next
    case (Inr mt)
    define k0 where "k0 = (if s = ''stnd'' then StandardScaler
                 else if s = ''minmax'' then MinMaxScaler else RobustScaler)"
    have sel: "select_scaler (scaler a) = ScObj k0"
      using sc s by (auto simp: select_scaler_def k0_def)
    from run_trace [OF Some Inr, of w] obtain L
      where L: "list_all is_load_event L"
        and alt: "fst (run w a) = L \<or>
            (\<exists>src data P. fst (run w a) = L @ fst (process_source w a mt src data) @ P \<and>
               (P = [] \<or> P = [Print ''Done.'']) \<and>
               (\<forall>xd. fst (snd data) = Some xd \<longrightarrow>
                  read_parquet w (Div (Path d) ''xdata.parquet'') = Inr xd))"
      by blast
    note Lf = load_events_filter [OF L]
    from alt show ?thesis
    proof
      assume "fst (run w a) = L"
      with Lf show ?thesis by simp
    next
      assume "\<exists>src data P. fst (run w a) = L @ fst (process_source w a mt src data) @ P \<and>
               (P = [] \<or> P = [Print ''Done.'']) \<and>
               (\<forall>xd. fst (snd data) = Some xd \<longrightarrow>
                  read_parquet w (Div (Path d) ''xdata.parquet'') = Inr xd)"
      then obtain src data P
        where tr: "fst (run w a) = L @ fst (process_source w a mt src data) @ P"
          and P: "P = [] \<or> P = [Print ''Done.'']"
          and x: "\<forall>xd. fst (snd data) = Some xd \<longrightarrow>
                  read_parquet w (Div (Path d) ''xdata.parquet'') = Inr xd"
        by blast
      from P have Pf: "filter is_fit_transform P = []" "\<And>c. LCInit c \<notin> set P"
        "\<And>k xd. FitTransform k xd \<notin> set P"
        by auto
      from process_source_trace [of w a mt src data] show ?thesis
      proof
        assume "fst (process_source w a mt src data) = []"
        with tr Lf Pf show ?thesis by simp
      next
        assume "\<exists>k xd T. fst (process_source w a mt src data) = FitTransform k xd # T \<and>
          fst (snd data) = Some xd \<and> select_scaler (scaler a) = ScObj k \<and>
          list_all (\<lambda>ev. \<not> is_fit_transform ev) T \<and>
          (\<forall>c. LCInit c \<in> set T \<longrightarrow>
             (\<exists>arr. fit_transform w k xd = Inr arr \<and> length arr = length (columns xd) \<and>
                lc_X c = zip (columns xd) (map (map (float32 w)) arr)))"
        then obtain k xd T
          where ps: "fst (process_source w a mt src data) = FitTransform k xd # T"
            and xd: "fst (snd data) = Some xd" and k: "select_scaler (scaler a) = ScObj k"
            and T: "list_all (\<lambda>ev. \<not> is_fit_transform ev) T"
            and X: "\<forall>c. LCInit c \<in> set T \<longrightarrow>
             (\<exists>arr. fit_transform w k xd = Inr arr \<and> length arr = length (columns xd) \<and>
                lc_X c = zip (columns xd) (map (map (float32 w)) arr))"
          by blast
        from k sel have kk: "k = k0" by simp
        from T have Tf: "filter is_fit_transform T = []" "\<And>k xd. FitTransform k xd \<notin> set T"
          by (auto simp: list_all_iff filter_empty_conv)
        have full: "fst (run w a) = L @ FitTransform k xd # (T @ P)"
          by (simp add: tr ps)
        have flt: "filter is_fit_transform (fst (run w a)) = [FitTransform k xd]"
          by (simp add: full Lf Tf Pf)
        have A: ?A by (simp add: flt)
        have B: ?B
          using x xd kk Some Lf(3) Tf(2) Pf(3) by (auto simp: full k0_def)
        have C: ?C
        proof (intro allI impI)
          fix c assume "LCInit c \<in> set (fst (run w a))"
          with Lf(2) Pf(2) have cT: "LCInit c \<in> set T"
            by (auto simp: full)
          with X obtain arr where arr: "fit_transform w k xd = Inr arr"
            "length arr = length (columns xd)"
            "lc_X c = zip (columns xd) (map (map (float32 w)) arr)"
            by blast
          from arr(2,3) have "columns (lc_X c) = columns xd"
            by (simp add: columns_zip)
          with full flt cT arr show "\<exists>pre k xd arr post.
               fst (run w a) = pre @ FitTransform k xd # post \<and>
               filter is_fit_transform (fst (run w a)) = [FitTransform k xd] \<and>
               LCInit c \<in> set post \<and> fit_transform w k xd = Inr arr \<and>
               lc_X c = zip (columns xd) (map (map (float32 w)) arr) \<and>
               columns (lc_X c) = columns xd"
            by (intro exI [of _ L] exI [of _ k] exI [of _ xd] exI [of _ arr] exI [of _ "T @ P"])
               simp
        qed
        from A B C show ?thesis by blast
      qed
    qed
  qed
qed

lemma learning_curve_after:
  "list_all (\<lambda>ev. \<not> is_fit_transform ev \<and> \<not> is_load_event ev)
     (fst (learning_curve w a mltype data xdata run_outdir cfg))"
  unfolding learning_curve_def
  by (cases data; cases cfg)
     (simp_all add: Let_def fst_bnd call_unit_def raise_def split: option.split)

lemma train_source_after:
  "list_all (\<lambda>ev. \<not> is_fit_transform ev \<and> \<not> is_load_event ev)
     (fst (train_source w a mltype src data xdata))"
  unfolding train_source_def
  by (intro events_bnd create_outdir_events learning_curve_after)
     (simp_all add: events_call_unit events_pure)

lemma process_source_starts:
  assumes "fst (snd data) = Some xd" and "select_scaler (scaler a) = ScObj k"
  shows "\<exists>T. fst (process_source w a mltype src data) = FitTransform k xd # T \<and>
             list_all (\<lambda>ev. \<not> is_fit_transform ev \<and> \<not> is_load_event ev) T"
proof -
  define sf where "sf = scale_features w (ScObj k) (Some xd)"
  have sf: "fst sf = [FitTransform k xd]"
    by (simp add: sf_def scale_features_def fst_bnd call_def lift_def split: sum.split)
  define T where "T = (case snd sf of Inl e \<Rightarrow> []
                       | Inr X \<Rightarrow> fst (train_source w a mltype src data X))"
  have "fst (process_source w a mltype src data) = FitTransform k xd # T"
    by (simp add: process_source_def assms fst_bnd sf T_def flip: sf_def)
  moreover have "list_all (\<lambda>ev. \<not> is_fit_transform ev \<and> \<not> is_load_event ev) T"
    by (simp add: T_def train_source_after split: sum.split)
  ultimately show ?thesis by blast
qed

lemma run_transforms_loaded:
  fixes w :: "('f, 'v) world"
  assumes sc: "select_scaler (scaler a) = ScObj k"
    and d: "dirpath a = Some d" and mt: "derive_mltype (model_name a) = Inr mt"
    and ld: "snd (load_data w a (Some (Path d))) = Inr dfs"
    and mem: "(src, data) \<in> set dfs" and xd: "fst (snd data) = Some xd"
  shows "list_all is_load_event (fst (load_data w a (Some (Path d)))) \<and>
         (\<exists>T. fst (run w a) = fst (load_data w a (Some (Path d))) @ FitTransform k xd # T \<and>
              list_all (\<lambda>ev. \<not> is_fit_transform ev \<and> \<not> is_load_event ev) T) \<and>
         filter is_fit_transform (fst (run w a)) = [FitTransform k xd]"
proof -
  define L where "L = fst (load_data w a (Some (Path d)))"
  have L: "list_all is_load_event L"
    unfolding L_def by (rule load_data_events) simp_all
  from load_data_result [OF ld] mem have dfs: "dfs = [(src, data)]"
    by auto
  define P :: "('f, 'v) event list"
    where "P = (case snd (process_source w a mt src data) of
                  Inl e \<Rightarrow> [] | Inr u \<Rightarrow> [Print ''Done.''])"
  have run_eq: "run w a =
      bnd (load_data w a (Some (Path d)))
        (\<lambda>dfs. bnd (for_sources w a mt dfs) (\<lambda>_. call_unit (Print ''Done.'') None))"
    by (simp add: run_def Path_of_def d mt bnd_lift_Inr)
  have tr: "fst (run w a) = L @ fst (process_source w a mt src data) @ P"
    unfolding run_eq P_def L_def
    by (simp add: fst_bnd snd_bnd ld dfs ret_def call_unit_def split: sum.split)
  from process_source_starts [OF xd sc, of w mt src] obtain T
    where ps: "fst (process_source w a mt src data) = FitTransform k xd # T"
      and T: "list_all (\<lambda>ev. \<not> is_fit_transform ev \<and> \<not> is_load_event ev) T"
    by blast
  have P: "list_all (\<lambda>ev. \<not> is_fit_transform ev \<and> \<not> is_load_event ev) P"
    by (simp add: P_def split: sum.split)
  from T P have TP: "list_all (\<lambda>ev. \<not> is_fit_transform ev \<and> \<not> is_load_event ev) (T @ P)"
    by simp
  have full: "fst (run w a) = L @ FitTransform k xd # (T @ P)"
    by (simp add: tr ps)
  from TP have "filter is_fit_transform (T @ P) = []"
    by (auto simp: list_all_iff filter_empty_conv)
  with load_events_filter(1) [OF L]
  have "filter is_fit_transform (fst (run w a)) = [FitTransform k xd]"
    by (simp add: full)
  with L TP full show ?thesis
    unfolding L_def by blast
qed

lemma select_scaler_named:
  assumes "scaler a = Some s" and "s = ''stnd'' \<or> s = ''minmax'' \<or> s = ''rbst''"
  shows "select_scaler (scaler a) =
           ScObj (if s = ''stnd'' then StandardScaler
                  else if s = ''minmax'' then MinMaxScaler else RobustScaler)"
  using assms by (auto simp: select_scaler_def)

section \<open>The concrete run, evaluated\<close>

lemma demo_world_simps:
  "OUTDIR demo_world = Path ''out/LearningCurves''"
  "is_file demo_world p = True"
  "read_parquet demo_world (Div (Path ''data/ccle_cv_simple'') ''xdata.parquet'') = Inr demo_xdata"
  "read_parquet demo_world (Div (Path ''data/ccle_cv_simple'') ''meta.parquet'')
     = Inr [(''AUC'', [7, 8, 9]), (''CELL'', [0, 0, 0])]"
  "read_csv demo_world p = Inr [(''fold0'', [0, 1])]"
  "fit_transform demo_world k df = Inr (map snd df)"
  "float32 demo_world v = v"
  "makedirs demo_world p = None"
  "Logger demo_world p = None"
  "dump_dict demo_world a p = None"
  "LearningCurve demo_world c = None"
  "trn_learning_curve demo_world c t = None"
  by (simp_all add: demo_world_def)

lemma demo_stamp: "stamp (now demo_world) = ''2019-7-4_h12-m30''"
  by (simp add: stamp_def demo_world_def str_nat.simps digit_def)

lemma demo_src:
  "split_on (CHR ''_'') (path_name (Path ''data/ccle_cv_simple'')) = [''ccle'', ''cv'', ''simple'']"
  by (simp add: last_part_def)

lemma demo_read:
  "read_data_file demo_world (Div (Path ''data/ccle_cv_simple'') ''xdata.parquet'') ''parquet''
     = ([IsFile (Div (Path ''data/ccle_cv_simple'') ''xdata.parquet''),
         ReadParquet (Div (Path ''data/ccle_cv_simple'') ''xdata.parquet'')], Inr (Some demo_xdata))"
  "read_data_file demo_world (Div (Path ''data/ccle_cv_simple'') ''meta.parquet'') ''parquet''
     = ([IsFile (Div (Path ''data/ccle_cv_simple'') ''meta.parquet''),
         ReadParquet (Div (Path ''data/ccle_cv_simple'') ''meta.parquet'')],
        Inr (Some [(''AUC'', [7, 8, 9]), (''CELL'', [0, 0, 0])]))"
  by (simp_all add: read_data_file_def demo_world_simps call_def ret_def bnd_Inr)

lemma demo_load_gen:
  "target_name a = ''AUC'' \<Longrightarrow> cv_folds a = ''5'' \<Longrightarrow>
   load_data demo_world a (Some (Path ''data/ccle_cv_simple''))
     = (take 6 demo_trace, Inr [(''ccle'', demo_data)])"
  by (simp add: load_data_def demo_read last_part_def demo_world_simps bnd_Inr call_def ret_def lift_def
        select_column_def columns_def demo_trace_def demo_data_def)

lemma demo_scale_gen:
  "scale_features demo_world (select_scaler (Some ''stnd'')) (Some demo_xdata)
     = ([FitTransform StandardScaler demo_xdata], Inr demo_xdata)"
  by (simp add: scale_features_def select_scaler_def demo_world_simps
        call_def lift_def bnd_Inr DataFrame_def columns_def demo_xdata_def)

lemma demo_run_gen:
  assumes "dirpath a = Some ''data/ccle_cv_simple''" "target_name a = ''AUC''" "cv_folds a = ''5''"
    "scaler a = Some ''stnd''" "derive_mltype (model_name a) = Inr mt"
    "train_source demo_world a mt ''ccle'' demo_data demo_xdata = (tr, r)"
  shows "run demo_world a =
     (take 7 demo_trace @ tr @ (case r of Inl e \<Rightarrow> [] | Inr _ \<Rightarrow> [Print ''Done.'']),
      case r of Inl e \<Rightarrow> Inl e | Inr _ \<Rightarrow> Inr ())"
proof -
  have x: "fst (snd demo_data) = Some demo_xdata"
    by (simp add: demo_data_def)
  have p: "process_source demo_world a mt ''ccle'' demo_data =
             (FitTransform StandardScaler demo_xdata # tr, r)"
    by (simp add: process_source_def x assms(4,6) demo_scale_gen bnd_Inr)
  have "run demo_world a =
          bnd (take 6 demo_trace, Inr [(''ccle'', demo_data)])
            (\<lambda>dfs. bnd (for_sources demo_world a mt dfs) (\<lambda>_. call_unit (Print ''Done.'') None))"
    by (simp add: run_def Path_of_def assms(1,5) bnd_lift_Inr demo_load_gen [OF assms(2,3)])
  also have "\<dots> = (take 6 demo_trace @ (FitTransform StandardScaler demo_xdata # tr) @
                     (case r of Inl e \<Rightarrow> [] | Inr _ \<Rightarrow> [Print ''Done.'']),
                   case r of Inl e \<Rightarrow> Inl e | Inr _ \<Rightarrow> Inr ())"
    by (cases r) (simp_all add: bnd_Inr bnd_Inl p ret_def call_unit_def)
  finally show ?thesis
    by (simp add: demo_trace_def)
qed

lemma demo_create_outdir:
  "create_outdir demo_world (Path ''out/LearningCurves'') default_args ''ccle''
     = ([MakeDirs demo_outdir], Inr demo_outdir)"
  by (simp add: create_outdir_def demo_stamp demo_world_simps call_unit_def ret_def bnd_Inr
        default_args_def demo_outdir_def Let_def)

lemma demo_configs:
  "ml_model_configs default_args demo_xdata
     = Inr (Some \<lparr>framework = ''lightgbm'',
                  init_kwargs = [(''n_jobs'', VInt 4), (''random_state'', VInt 42), (''logger'', VLogger)],
                  fit_kwargs = [(''verbose'', VBool False)]\<rparr>)"
  by (simp add: ml_model_configs_def branch_taken_def default_args_def SEED_def)

lemma demo_learning_curve:
  "learning_curve demo_world default_args ''reg''
      demo_data demo_xdata demo_outdir
      (Some \<lparr>framework = ''lightgbm'',
                  init_kwargs = [(''n_jobs'', VInt 4), (''random_state'', VInt 42), (''logger'', VLogger)],
                  fit_kwargs = [(''verbose'', VBool False)]\<rparr>)
     = ([LCInit demo_lc_call, TrnLearningCurve demo_trn_call], Inr ())"
  by (simp add: learning_curve_def demo_data_def demo_world_simps call_unit_def bnd_Inr demo_lc_call_def
        demo_trn_call_def clr_keras_kwargs_def opt_str_def SEED_def)
     (simp add: default_args_def)

lemma demo_train:
  "train_source demo_world default_args ''reg'' ''ccle'' demo_data demo_xdata
     = (drop 7 (butlast demo_trace), Inr ())"
  by (simp add: train_source_def demo_create_outdir demo_configs demo_learning_curve
        demo_world_simps call_unit_def lift_def bnd_Inr demo_trace_def)

lemma default_args_simps:
  "dirpath default_args = Some ''data/ccle_cv_simple''" "target_name default_args = ''AUC''"
  "cv_folds default_args = ''5''" "scaler default_args = Some ''stnd''"
  "model_name default_args = ''lgb_reg''"
  by (simp_all add: default_args_def)

lemma demo_run: "run demo_world default_args = (demo_trace, Inr ())"
proof -
  have "derive_mltype (model_name default_args) = Inr ''reg''"
    by (simp add: default_args_simps derive_mltype_def)
  from demo_run_gen [OF default_args_simps(1-4) this demo_train] show ?thesis
    by (simp add: demo_trace_def)
qed


lemma nn_args_simps:
  "dirpath nn_args = Some ''data/ccle_cv_simple''" "target_name nn_args = ''AUC''"
  "cv_folds nn_args = ''5''" "scaler nn_args = Some ''stnd''" "model_name nn_args = ''nn_reg''"
  by (simp_all add: nn_args_def default_args_def)



lemma nn_train:
  "train_source demo_world nn_args ''reg'' ''ccle'' demo_data demo_xdata =
     ([MakeDirs nn_outdir, LoggerOpen (Div nn_outdir ''logfile.log''), LogInfo, LogInfo,
       DumpDict (Div nn_outdir ''args.txt'')], Inl (NameError ''attn''))"
  by (simp add: train_source_def create_outdir_def ml_model_configs_nn_reg nn_args_simps
        demo_stamp demo_world_simps call_unit_def lift_def ret_def bnd_Inr bnd_Inl
        Let_def nn_outdir_def)
     (simp add: nn_args_def default_args_def)

lemma nn_run:
  "run demo_world nn_args =
     (take 7 demo_trace @
      [MakeDirs nn_outdir, LoggerOpen (Div nn_outdir ''logfile.log''), LogInfo, LogInfo,
       DumpDict (Div nn_outdir ''args.txt'')], Inl (NameError ''attn''))"
proof -
  have "derive_mltype (model_name nn_args) = Inr ''reg''"
    by (simp add: nn_args_simps derive_mltype_def)
  from demo_run_gen [OF nn_args_simps(1-4) this nn_train] show ?thesis by simp
qed

lemma scaler_args_simps:
  "dirpath minmax_args = Some ''data/ccle_cv_simple''" "target_name minmax_args = ''AUC''"
  "cv_folds minmax_args = ''5''" "scaler minmax_args = Some ''minmax''"
  "model_name minmax_args = ''lgb_reg''"
  "dirpath rbst_args = Some ''data/ccle_cv_simple''" "target_name rbst_args = ''AUC''"
  "cv_folds rbst_args = ''5''" "scaler rbst_args = Some ''rbst''"
  "model_name rbst_args = ''lgb_reg''"
  by (simp_all add: minmax_args_def rbst_args_def default_args_def)

lemma demo_loaded:
  "target_name a = ''AUC'' \<Longrightarrow> cv_folds a = ''5'' \<Longrightarrow>
   snd (load_data demo_world a (Some (Path ''data/ccle_cv_simple''))) = Inr [(''ccle'', demo_data)]"
  by (simp add: demo_load_gen)

section \<open>Claims about \<open>run\<close>\<close>

text \<open>
  C6, as stated: the shard-schedule scale mode is caller-supplied, so that some input makes
  \<open>run\<close> invoke the engine with scale mode \<open>linear\<close>. No input does.
\<close>

theorem engine_scale_linear_counterexample:
  "\<not> (\<exists>(w :: (string, int) world) a c.
        LCInit c \<in> set (fst (run w a)) \<and> lc_shard_step_scale c = ''linear'')"
proof
  assume "\<exists>(w :: (string, int) world) a c.
        LCInit c \<in> set (fst (run w a)) \<and> lc_shard_step_scale c = ''linear''"
  then obtain w :: "(string, int) world" and a c
    where "LCInit c \<in> set (fst (run w a))" and "lc_shard_step_scale c = ''linear''"
    by blast
  then show False
    by (auto dest!: run_engine_call simp: engine_call_ok_def)
qed

text \<open>
  C6, amended: the scale mode is not an input of \<open>run\<close>. Whatever the arguments and whatever
  the collaborators do, every \<open>LearningCurve(...)\<close> that \<open>run\<close> constructs is given
  \<open>shard_step_scale='log10'\<close> (line 294), and \<open>n_shards\<close> is the argument \<open>args['n_shards']\<close>.
\<close>

theorem engine_scale_is_log10:
  "LCInit c \<in> set (fst (run w a)) \<Longrightarrow>
   lc_shard_step_scale c = ''log10'' \<and> lc_n_shards c = n_shards a"
  by (drule run_engine_call) (simp add: engine_call_ok_def)

theorem engine_scale_is_log10_witness:
  "LCInit demo_lc_call \<in> set (fst (run demo_world default_args)) \<and>
   lc_shard_step_scale demo_lc_call = ''log10'' \<and>
   lc_n_shards demo_lc_call = n_shards default_args"
proof -
  have h: "LCInit demo_lc_call \<in> set (fst (run demo_world default_args))"
    by (simp add: demo_run demo_trace_def)
  from h engine_scale_is_log10 [OF h] show ?thesis by simp
qed

text \<open>
  C1: the condition \<open>model_name == 'nn_reg0' or 'nn_reg1' or 'nn_reg2'\<close> of line 275 is truthy
  for every \<open>model_name\<close>. So every \<open>model_name\<close> other than \<open>'lgb_reg'\<close> and \<open>'nn_reg'\<close> takes that
  branch, which sets \<open>framework = 'keras'\<close> and the \<open>input_dim\<close> keyword dict, and the branch of
  line 279 (\<open>'nn_reg3' or 'nn_reg4'\<close>) is never taken.
\<close>

theorem nn_reg012_condition_always_true:
  "truthy (cond_nn_reg012 (model_name a)) \<and>
   branch_taken (model_name a) \<noteq> Br_nn_reg34 \<and>
   (model_name a \<noteq> ''lgb_reg'' \<and> model_name a \<noteq> ''nn_reg'' \<longrightarrow>
      branch_taken (model_name a) = Br_nn_reg012 \<and>
      ml_model_configs a xdata =
        Inr (Some \<lparr>framework = ''keras'',
                   init_kwargs = [(''input_dim'', VInt (int (length (columns xdata)))),
                                  (''dr_rate'', VFloat (dr_rate a)), (''opt_name'', VStr (opt a)),
                                  (''logger'', VLogger)],
                   fit_kwargs = [(''batch_size'', VInt (batch_size a)),
                                 (''epochs'', VInt (epochs a)), (''verbose'', VInt 1)]\<rparr>))"
  by (simp add: truthy_cond_nn_reg012 branch_taken_cases ml_model_configs_def)

theorem nn_reg012_condition_always_true_witness:
  "model_name (default_args\<lparr>model_name := ''nn_reg3''\<rparr>) \<noteq> ''lgb_reg'' \<and>
   model_name (default_args\<lparr>model_name := ''nn_reg3''\<rparr>) \<noteq> ''nn_reg'' \<and>
   branch_taken ''nn_reg3'' = Br_nn_reg012 \<and>
   ml_model_configs (default_args\<lparr>model_name := ''nn_reg3''\<rparr>) demo_xdata =
     Inr (Some \<lparr>framework = ''keras'',
                init_kwargs = [(''input_dim'', VInt 2), (''dr_rate'', VFloat ''0.2''),
                               (''opt_name'', VStr ''sgd''), (''logger'', VLogger)],
                fit_kwargs = [(''batch_size'', VInt 32), (''epochs'', VInt 200),
                              (''verbose'', VInt 1)]\<rparr>)"
  using nn_reg012_condition_always_true [of "default_args\<lparr>model_name := ''nn_reg3''\<rparr>" demo_xdata]
  by (simp add: default_args_def demo_xdata_def columns_def)

text \<open>
  C7, as stated: the random seed is supplied by the caller, so that the seed handed to the
  engine differs between some two runs. It never does.
\<close>

theorem seed_varies_counterexample:
  "\<not> (\<exists>(w1 :: (string, int) world) a1 t1 (w2 :: (string, int) world) a2 t2.
        TrnLearningCurve t1 \<in> set (fst (run w1 a1)) \<and>
        TrnLearningCurve t2 \<in> set (fst (run w2 a2)) \<and>
        trn_random_state t1 \<noteq> trn_random_state t2)"
proof
  assume "\<exists>(w1 :: (string, int) world) a1 t1 (w2 :: (string, int) world) a2 t2.
        TrnLearningCurve t1 \<in> set (fst (run w1 a1)) \<and>
        TrnLearningCurve t2 \<in> set (fst (run w2 a2)) \<and>
        trn_random_state t1 \<noteq> trn_random_state t2"
  then obtain w1 w2 :: "(string, int) world" and a1 t1 a2 t2
    where "TrnLearningCurve t1 \<in> set (fst (run w1 a1))"
      and "TrnLearningCurve t2 \<in> set (fst (run w2 a2))"
      and "trn_random_state t1 \<noteq> trn_random_state t2"
    by blast
  then show False
    by (auto dest!: run_engine_call simp: engine_call_ok_def)
qed

text \<open>
  C7, amended: the seed is the module constant \<open>SEED = 42\<close>, not an input of \<open>run\<close>. Every
  \<open>trn_learning_curve\<close> call gets \<open>random_state=42\<close>, and \<open>init_kwargs\<close> has the key
  \<open>random_state\<close> only for \<open>'lgb_reg'\<close>, where it is 42 as well.
\<close>

theorem seed_is_module_constant:
  "TrnLearningCurve t \<in> set (fst (run w a)) \<Longrightarrow>
   trn_random_state t = SEED \<and> SEED = 42 \<and>
   map_of (trn_init_kwargs t) ''random_state'' =
     (if model_name a = ''lgb_reg'' then Some (VInt 42) else None)"
  by (drule run_engine_call) (simp add: engine_call_ok_def SEED_def)

theorem seed_is_module_constant_witness:
  "TrnLearningCurve demo_trn_call \<in> set (fst (run demo_world default_args)) \<and>
   trn_random_state demo_trn_call = 42 \<and>
   map_of (trn_init_kwargs demo_trn_call) ''random_state'' = Some (VInt 42)"
proof -
  have h: "TrnLearningCurve demo_trn_call \<in> set (fst (run demo_world default_args))"
    by (simp add: demo_run demo_trace_def)
  from h seed_is_module_constant [OF h] show ?thesis
    by (simp add: default_args_simps SEED_def)
qed

text \<open>
  C8: whenever \<open>run\<close> asks the engine for a learning curve, the \<open>clr_keras_kwargs\<close> it hands
  over is the dict with exactly the keys \<open>mode\<close>, \<open>base_lr\<close>, \<open>max_lr\<close>, \<open>gamma\<close>, bound to
  \<open>args['clr_mode']\<close> (which may be \<open>None\<close>), \<open>args['clr_base_lr']\<close>, \<open>args['clr_max_lr']\<close> and
  \<open>args['clr_gamma']\<close>.
\<close>

theorem clr_kwargs_quadruple:
  "TrnLearningCurve t \<in> set (fst (run w a)) \<Longrightarrow>
   trn_clr_keras_kwargs t =
     [(''mode'', case clr_mode a of None \<Rightarrow> VNone | Some m \<Rightarrow> VStr m),
      (''base_lr'', VFloat (clr_base_lr a)), (''max_lr'', VFloat (clr_max_lr a)),
      (''gamma'', VFloat (clr_gamma a))] \<and>
   dom (map_of (trn_clr_keras_kwargs t)) = {''mode'', ''base_lr'', ''max_lr'', ''gamma''}"
  by (drule run_engine_call)
     (auto simp: engine_call_ok_def clr_keras_kwargs_def opt_str_def)

theorem clr_kwargs_quadruple_witness:
  "TrnLearningCurve demo_trn_call \<in> set (fst (run demo_world default_args)) \<and>
   trn_clr_keras_kwargs demo_trn_call =
     [(''mode'', VNone), (''base_lr'', VFloat ''1e-4''), (''max_lr'', VFloat ''1e-3''),
      (''gamma'', VFloat ''0.999994'')]"
proof -
  have h: "TrnLearningCurve demo_trn_call \<in> set (fst (run demo_world default_args))"
    by (simp add: demo_run demo_trace_def)
  from h clr_kwargs_quadruple [OF h] show ?thesis
    by (simp add: default_args_def)
qed

text \<open>
  C10: with \<open>args['dirpath'] = None\<close>, \<open>run\<close> raises TypeError at \<open>Path(None)\<close> before any
  call into a collaborator (no file is read). So the local \<open>dirpath\<close> is never \<open>None\<close> at
  line 196: the \<open>elif\<close> branch, which would raise NameError on \<open>dname\<close>, is never entered, and
  the only NameError \<open>run\<close> can end with is the one on \<open>attn\<close>.
\<close>

theorem path_none_raises_type_error:
  "(dirpath a = None \<longrightarrow> run w a = ([], Inl TypeError)) \<and>
   (\<forall>n. n \<noteq> ''attn'' \<longrightarrow> snd (run w a) \<noteq> Inl (NameError n)) \<and>
   load_data w a None = ([], Inl (NameError ''dname''))"
proof -
  have "errs_in (\<lambda>e. \<forall>n. e = NameError n \<longrightarrow> n = ''attn'') (run w a)"
    by (rule run_errs) simp_all
  then have "\<forall>n. n \<noteq> ''attn'' \<longrightarrow> snd (run w a) \<noteq> Inl (NameError n)"
    by (auto simp: errs_in_def)
  then show ?thesis
    by (simp add: run_Path_None load_data_def raise_def)
qed

theorem path_none_raises_type_error_witness:
  "dirpath (default_args\<lparr>dirpath := None\<rparr>) = None \<and>
   run demo_world (default_args\<lparr>dirpath := None\<rparr>) = ([], Inl TypeError) \<and>
   ''dname'' \<noteq> ''attn'' \<and>
   snd (run demo_world (default_args\<lparr>dirpath := None\<rparr>)) \<noteq> Inl (NameError ''dname'')"
  using path_none_raises_type_error [of "default_args\<lparr>dirpath := None\<rparr>" demo_world]
  by simp




text \<open>
  C9: with \<open>model_name = 'nn_reg'\<close>, \<open>run\<close> never constructs or invokes the engine and never
  returns normally; and once it has reached the model configuration (\<open>dump_dict\<close>, the last
  call before it, has returned) it ends with the NameError on \<open>attn\<close>.
\<close>

theorem nn_reg_raises_name_error:
  assumes "model_name a = ''nn_reg''"
  shows "list_all (\<lambda>ev. \<not> is_engine_event ev) (fst (run w a)) \<and>
         snd (run w a) \<noteq> Inr () \<and>
         (\<forall>p. DumpDict p \<in> set (fst (run w a)) \<and> dump_dict w a p = None \<longrightarrow>
              snd (run w a) = Inl (NameError ''attn''))"
proof (intro conjI)
  have "list_all (\<lambda>ev. \<not> is_engine_event ev) (fst (process_source w a mltype src data))"
    for mltype src data
    unfolding process_source_def
    by (intro events_bnd scale_features_events train_source_nn_reg_no_engine assms) simp
  then show "list_all (\<lambda>ev. \<not> is_engine_event ev) (fst (run w a))"
    unfolding run_def
    by (intro events_bnd load_data_events for_sources_events)
       (simp_all add: events_pure events_call_unit)
next
  show "snd (run w a) \<noteq> Inr ()"
  proof
    assume ok: "snd (run w a) = Inr ()"
    then obtain dp mt dfs where "snd (load_data w a (Some dp)) = Inr dfs"
      and fs: "snd (for_sources w a mt dfs) = Inr ()"
      by (auto simp: run_def snd_bnd split: sum.splits)
    then obtain d where "dfs = [d]"
      by (auto dest: load_data_result)
    with fs process_source_nn_reg_fails [OF assms, of w mt "fst d" "snd d"] show False
      by (simp add: snd_bnd split: sum.splits)
  qed
next
  have "dump_then_attn w a (run w a)"
    unfolding run_def
    by (intro dump_bnd dump_no_event load_data_events for_sources_nn_reg_dump assms)
       (simp_all add: lift_def call_unit_def)
  then show "\<forall>p. DumpDict p \<in> set (fst (run w a)) \<and> dump_dict w a p = None \<longrightarrow>
              snd (run w a) = Inl (NameError ''attn'')"
    by (auto simp: dump_then_attn_def)
qed

theorem nn_reg_raises_name_error_witness:
  "model_name nn_args = ''nn_reg'' \<and>
   DumpDict (Div nn_outdir ''args.txt'') \<in> set (fst (run demo_world nn_args)) \<and>
   dump_dict demo_world nn_args (Div nn_outdir ''args.txt'') = None \<and>
   snd (run demo_world nn_args) = Inl (NameError ''attn'') \<and>
   list_all (\<lambda>ev. \<not> is_engine_event ev) (fst (run demo_world nn_args))"
proof -
  have m: "model_name nn_args = ''nn_reg''"
    by (simp add: nn_args_simps)
  have d: "DumpDict (Div nn_outdir ''args.txt'') \<in> set (fst (run demo_world nn_args))"
    by (simp add: nn_run)
  have n: "dump_dict demo_world nn_args (Div nn_outdir ''args.txt'') = None"
    by (simp add: demo_world_simps)
  from nn_reg_raises_name_error [OF m, of demo_world] d n m show ?thesis by blast
qed

text \<open>
  C5: with \<open>args['scaler']\<close> one of \<open>stnd\<close>, \<open>minmax\<close>, \<open>rbst\<close>, for every data source that \<open>run\<close>
  has loaded with its feature matrix, the trace of \<open>run\<close> is the file reads, then one
  \<open>fit_transform\<close> of that matrix by the scaler the name selects (StandardScaler,
  MinMaxScaler, RobustScaler), then everything else: the matrix is transformed exactly once,
  and before the output directory, the logger and the engine. Whenever the engine is
  constructed, the \<open>X\<close> it receives is the transformed array under the columns of the matrix
  read, in their order.
\<close>

theorem features_scaled_once_before_engine:
  assumes sc: "scaler a = Some s" and s: "s = ''stnd'' \<or> s = ''minmax'' \<or> s = ''rbst''"
  shows "(\<forall>d mt dfs src data xd.
            dirpath a = Some d \<and> derive_mltype (model_name a) = Inr mt \<and>
            snd (load_data w a (Some (Path d))) = Inr dfs \<and> (src, data) \<in> set dfs \<and>
            fst (snd data) = Some xd \<longrightarrow>
            list_all is_load_event (fst (load_data w a (Some (Path d)))) \<and>
            (\<exists>T. fst (run w a) =
                   fst (load_data w a (Some (Path d))) @
                   FitTransform (if s = ''stnd'' then StandardScaler
                                 else if s = ''minmax'' then MinMaxScaler else RobustScaler) xd # T \<and>
                 list_all (\<lambda>ev. \<not> is_fit_transform ev \<and> \<not> is_load_event ev) T) \<and>
            filter is_fit_transform (fst (run w a)) =
              [FitTransform (if s = ''stnd'' then StandardScaler
                             else if s = ''minmax'' then MinMaxScaler else RobustScaler) xd]) \<and>
         length (filter is_fit_transform (fst (run w a))) \<le> 1 \<and>
         (\<forall>k xd. FitTransform k xd \<in> set (fst (run w a)) \<longrightarrow>
            k = (if s = ''stnd'' then StandardScaler
                 else if s = ''minmax'' then MinMaxScaler else RobustScaler) \<and>
            (\<exists>d. dirpath a = Some d \<and> read_parquet w (Div (Path d) ''xdata.parquet'') = Inr xd)) \<and>
         (\<forall>c. LCInit c \<in> set (fst (run w a)) \<longrightarrow>
            (\<exists>pre k xd arr post.
               fst (run w a) = pre @ FitTransform k xd # post \<and>
               filter is_fit_transform (fst (run w a)) = [FitTransform k xd] \<and>
               LCInit c \<in> set post \<and> fit_transform w k xd = Inr arr \<and>
               lc_X c = zip (columns xd) (map (map (float32 w)) arr) \<and>
               columns (lc_X c) = columns xd))"
  using run_transforms_loaded [OF select_scaler_named [OF sc s], of _ _ w]
    run_scaling_shape [OF sc s, of w]
  by blast

theorem features_scaled_once_before_engine_witness:
  "scaler default_args = Some ''stnd'' \<and> scaler minmax_args = Some ''minmax'' \<and>
   scaler rbst_args = Some ''rbst'' \<and>
   snd (load_data demo_world default_args (Some (Path ''data/ccle_cv_simple'')))
     = Inr [(''ccle'', demo_data)] \<and>
   snd (load_data demo_world minmax_args (Some (Path ''data/ccle_cv_simple'')))
     = Inr [(''ccle'', demo_data)] \<and>
   snd (load_data demo_world rbst_args (Some (Path ''data/ccle_cv_simple'')))
     = Inr [(''ccle'', demo_data)] \<and>
   fst (snd demo_data) = Some demo_xdata \<and>
   filter is_fit_transform (fst (run demo_world default_args)) =
     [FitTransform StandardScaler demo_xdata] \<and>
   filter is_fit_transform (fst (run demo_world minmax_args)) =
     [FitTransform MinMaxScaler demo_xdata] \<and>
   filter is_fit_transform (fst (run demo_world rbst_args)) =
     [FitTransform RobustScaler demo_xdata] \<and>
   LCInit demo_lc_call \<in> set (fst (run demo_world default_args)) \<and>
   columns (lc_X demo_lc_call) = columns demo_xdata"
proof -
  have x: "fst (snd demo_data) = Some demo_xdata"
    by (simp add: demo_data_def)
  have mem: "(''ccle'', demo_data) \<in> set [(''ccle'', demo_data)]"
    by simp
  have mt: "derive_mltype ''lgb_reg'' = Inr ''reg''"
    by (simp add: derive_mltype_def)
  have l1: "snd (load_data demo_world default_args (Some (Path ''data/ccle_cv_simple'')))
     = Inr [(''ccle'', demo_data)]"
    by (rule demo_loaded) (simp_all add: default_args_simps)
  have l2: "snd (load_data demo_world minmax_args (Some (Path ''data/ccle_cv_simple'')))
     = Inr [(''ccle'', demo_data)]"
    by (rule demo_loaded) (simp_all add: scaler_args_simps)
  have l3: "snd (load_data demo_world rbst_args (Some (Path ''data/ccle_cv_simple'')))
     = Inr [(''ccle'', demo_data)]"
    by (rule demo_loaded) (simp_all add: scaler_args_simps)
  have sc: "scaler default_args = Some ''stnd''" and sc2: "scaler minmax_args = Some ''minmax''"
    and sc3: "scaler rbst_args = Some ''rbst''"
    by (simp_all add: default_args_simps scaler_args_simps)
  have s: "''stnd'' = ''stnd'' \<or> ''stnd'' = ''minmax'' \<or> ''stnd'' = ''rbst''"
    and s2: "''minmax'' = ''stnd'' \<or> ''minmax'' = ''minmax'' \<or> ''minmax'' = ''rbst''"
    and s3: "''rbst'' = ''stnd'' \<or> ''rbst'' = ''minmax'' \<or> ''rbst'' = ''rbst''"
    by simp_all
  have f1: "filter is_fit_transform (fst (run demo_world default_args)) =
     [FitTransform StandardScaler demo_xdata]"
    using features_scaled_once_before_engine [OF sc s, of demo_world, THEN conjunct1,
        rule_format, of "''data/ccle_cv_simple''" "''reg''" "[(''ccle'', demo_data)]" "''ccle''"
        demo_data demo_xdata]
    by (simp add: default_args_simps mt l1 x)
  have f2: "filter is_fit_transform (fst (run demo_world minmax_args)) =
     [FitTransform MinMaxScaler demo_xdata]"
    using features_scaled_once_before_engine [OF sc2 s2, of demo_world, THEN conjunct1,
        rule_format, of "''data/ccle_cv_simple''" "''reg''" "[(''ccle'', demo_data)]" "''ccle''"
        demo_data demo_xdata]
    by (simp add: scaler_args_simps mt l2 x)
  have f3: "filter is_fit_transform (fst (run demo_world rbst_args)) =
     [FitTransform RobustScaler demo_xdata]"
    using features_scaled_once_before_engine [OF sc3 s3, of demo_world, THEN conjunct1,
        rule_format, of "''data/ccle_cv_simple''" "''reg''" "[(''ccle'', demo_data)]" "''ccle''"
        demo_data demo_xdata]
    by (simp add: scaler_args_simps mt l3 x)
  have c: "LCInit demo_lc_call \<in> set (fst (run demo_world default_args))"
    by (simp add: demo_run demo_trace_def)
  from features_scaled_once_before_engine [OF sc s, of demo_world] c
  obtain k xd
    where "filter is_fit_transform (fst (run demo_world default_args)) = [FitTransform k xd]"
      and "columns (lc_X demo_lc_call) = columns xd"
    by blast
  with f1 have cols: "columns (lc_X demo_lc_call) = columns demo_xdata"
    by simp
  from sc l1 l2 l3 x f1 f2 f3 c cols show ?thesis
    by (simp add: scaler_args_simps)
qed

end
